theory Spec2Isabelle
  imports Main
begin

section \<open>Python values and exceptions\<close>

text \<open>
  The program is a Python script (\<^verbatim>\<open>pokedex.py\<close>) of five functions:
  \<^verbatim>\<open>obtener_datos_pokemon\<close>, \<^verbatim>\<open>extraer_informacion_relevante\<close>,
  \<^verbatim>\<open>mostrar_datos_pokemon\<close>, \<^verbatim>\<open>guardar_informacion_json\<close> and
  \<^verbatim>\<open>ejecutar_pokedex\<close>. Every exception the script can meet is a value of
  \<open>py_error\<close>; a function that may raise returns \<open>py_error + 'a\<close>, with
  \<open>Inl\<close> the exception that leaves the function.

  A Python \<open>str\<close> is modelled as a HOL \<open>string\<close>, a text outside ASCII as
  its UTF-8 bytes (so writing it to a file is the identity). The case functions
  below act on the ASCII letters and leave every other character as it is, and
  the whitespace test is the ASCII part of the Python one.
\<close>

datatype py_error =
    KeyError string
  | TypeError
  | AttributeError
  | OverflowError
  | EOFError
  | RequestException string
  | OSError string
  | OtherException string

text \<open>
  The values \<^verbatim>\<open>json\<close> parsing produces. A dict keeps its insertion order, so
  it is an association list (of distinct keys, in a value that comes from a
  parse; a lookup takes the first). The floating-point numbers are a type parameter
  \<open>'f\<close>: their arithmetic and printing belong to the Python runtime and come
  in as the record \<open>float_ops\<close>.
\<close>

datatype 'f pyval =
    PNone
  | PBool bool
  | PInt int
  | PFloat 'f
  | PStr string
  | PList "'f pyval list"
  | PDict "(string \<times> 'f pyval) list"

record 'f float_ops =
  int_truediv :: "int \<Rightarrow> int \<Rightarrow> 'f option"
  float_truediv :: "'f \<Rightarrow> int \<Rightarrow> 'f"
  float_bool :: "'f \<Rightarrow> bool"
  float_repr :: "'f \<Rightarrow> string"
  float_json :: "'f \<Rightarrow> string"

subsection \<open>String methods\<close>

definition is_upper_ascii :: "char \<Rightarrow> bool" where
  "is_upper_ascii c \<longleftrightarrow> 65 \<le> (of_char c :: nat) \<and> (of_char c :: nat) \<le> 90"

definition is_lower_ascii :: "char \<Rightarrow> bool" where
  "is_lower_ascii c \<longleftrightarrow> 97 \<le> (of_char c :: nat) \<and> (of_char c :: nat) \<le> 122"

definition lower_char :: "char \<Rightarrow> char" where
  "lower_char c = (if is_upper_ascii c then char_of ((of_char c :: nat) + 32) else c)"

definition upper_char :: "char \<Rightarrow> char" where
  "upper_char c = (if is_lower_ascii c then char_of ((of_char c :: nat) - 32) else c)"

definition is_space :: "char \<Rightarrow> bool" where
  "is_space c \<longleftrightarrow>
     (let n = (of_char c :: nat) in (9 \<le> n \<and> n \<le> 13) \<or> (28 \<le> n \<and> n \<le> 32))"

definition lower :: "string \<Rightarrow> string" where
  "lower s = map lower_char s"

definition strip :: "string \<Rightarrow> string" where
  "strip s = rev (dropWhile is_space (rev (dropWhile is_space s)))"

fun capitalize :: "string \<Rightarrow> string" where
  "capitalize [] = []"
| "capitalize (c # cs) = upper_char c # lower cs"

definition replace_char :: "char \<Rightarrow> char \<Rightarrow> string \<Rightarrow> string" where
  "replace_char a b s = map (\<lambda>c. if c = a then b else c) s"

subsection \<open>Printing integers\<close>

definition digit_char :: "int \<Rightarrow> char" where
  "digit_char d = char_of (48 + d)"

function str_pos :: "int \<Rightarrow> string" where
  "str_pos n = (if n < 10 then [digit_char n] else str_pos (n div 10) @ [digit_char (n mod 10)])"
  by pat_completeness auto
termination
  by (relation "measure nat") auto

declare str_pos.simps [simp del]

definition str_int :: "int \<Rightarrow> string" where
  "str_int i = (if i < 0 then CHR ''-'' # str_pos (- i) else str_pos i)"

section \<open>The world the script runs in\<close>

text \<open>
  \<^verbatim>\<open>requests.get(url)\<close> either returns a response or raises. A response has
  a status code and a body; \<open>json\<close> is what \<^verbatim>\<open>respuesta.json()\<close> does
  with the body: the parsed value, or the exception it raises.
\<close>

record 'f response =
  status_code :: int
  json :: "py_error + 'f pyval"

datatype 'f http_outcome = Responds "'f response" | Raises py_error

text \<open>
  The environment is what the script does not control: the answer of the
  service to each URL, the floating-point operations of the runtime, and the
  refusals of the operating system (\<open>None\<close>: the call goes through;
  \<open>Some msg\<close>: it raises \<^verbatim>\<open>OSError\<close> with that text).
  \<open>write_fault p = Some (n, msg)\<close> says that a write to \<open>p\<close> stops
  after \<open>n\<close> characters with \<^verbatim>\<open>OSError\<close>.
\<close>

record 'f env =
  http_get :: "string \<Rightarrow> 'f http_outcome"
  float :: "'f float_ops"
  mkdir_denied :: "string \<Rightarrow> string option"
  open_denied :: "string \<Rightarrow> string option"
  write_fault :: "string \<Rightarrow> (nat \<times> string) option"

text \<open>
  The state the script changes: the text it has printed (one element for each
  \<^verbatim>\<open>print\<close> call, without the newline \<^verbatim>\<open>print\<close> adds; the prompt of
  \<^verbatim>\<open>input\<close> is an element too), the URLs it has requested, and the file
  system (the directories that exist and the contents of the files).
\<close>

record world =
  stdout :: "string list"
  requests :: "string list"
  dirs :: "string set"
  files :: "string \<rightharpoonup> string"

definition print :: "string \<Rightarrow> world \<Rightarrow> world" where
  "print s w = w\<lparr>stdout := stdout w @ [s]\<rparr>"

section \<open>Fetcher: \<^verbatim>\<open>obtener_datos_pokemon\<close>\<close>

text \<open>Lines 9 to 54 of \<^verbatim>\<open>pokedex.py\<close>: the two constants and the function.\<close>

definition BASE_URL :: string where
  "BASE_URL = ''https://pokeapi.co/api/v2/pokemon/''"

definition POKEDEX_FOLDER :: string where
  "POKEDEX_FOLDER = ''pokedex''"

text \<open>The accented letters of the messages, as their UTF-8 bytes.\<close>

definition e_acute :: string where "e_acute = [CHR 0xC3, CHR 0xA9]"
definition o_acute :: string where "o_acute = [CHR 0xC3, CHR 0xB3]"

definition msg_no_existe :: "string \<Rightarrow> string" where
  "msg_no_existe nombre_pokemon =
     ''Error: El Pok'' @ e_acute @ ''mon '' @ [CHR 0x27] @ nombre_pokemon @ [CHR 0x27] @
     '' no existe en la Pok'' @ e_acute @ ''dex. Intenta con otro nombre.''"

definition msg_codigo_http :: "int \<Rightarrow> string" where
  "msg_codigo_http code =
     ''Error al consultar la API: C'' @ o_acute @ ''digo de estado HTTP '' @ str_int code @ ''.''"

definition msg_detalles_servicio :: string where
  "msg_detalles_servicio = ''Detalles: Puede haber un problema con el servicio de la API.''"

definition msg_fatal_conexion :: string where
  "msg_fatal_conexion =
     [CHR 0x0A] @ ''Fatal Error: No se pudo conectar a la PokeAPI. Revisa tu conexi'' @ o_acute @
     ''n a internet o la URL base.''"

definition msg_detalles_error :: "string \<Rightarrow> string" where
  "msg_detalles_error e = ''Detalles del error: '' @ e"

definition nombre_normalizado :: "string \<Rightarrow> string" where
  "nombre_normalizado nombre_pokemon = strip (lower nombre_pokemon)"

definition url_pokemon :: "string \<Rightarrow> string" where
  "url_pokemon nombre_pokemon = BASE_URL @ nombre_normalizado nombre_pokemon"

text \<open>
  The body of the \<^verbatim>\<open>try\<close>: the request, then the three branches on the
  status code. \<open>Inl\<close> is an exception raised inside the \<^verbatim>\<open>try\<close>.
\<close>

definition obtener_try :: "'f env \<Rightarrow> string \<Rightarrow> world \<Rightarrow> py_error + (world \<times> 'f pyval)" where
  "obtener_try E nombre_pokemon w =
     (case http_get E (url_pokemon nombre_pokemon) of
        Raises e \<Rightarrow> Inl e
      | Responds respuesta \<Rightarrow>
          if status_code respuesta = 200 then
            (case json respuesta of Inl e \<Rightarrow> Inl e | Inr v \<Rightarrow> Inr (w, v))
          else if status_code respuesta = 404 then
            Inr (print (msg_no_existe nombre_pokemon) w, PNone)
          else
            Inr (print msg_detalles_servicio (print (msg_codigo_http (status_code respuesta)) w),
                 PNone))"

text \<open>
  The whole function: the request is recorded, and the \<^verbatim>\<open>except\<close> clause
  catches \<^verbatim>\<open>RequestException\<close> only; any other exception leaves the function.
\<close>

definition obtener_datos_pokemon ::
  "'f env \<Rightarrow> string \<Rightarrow> world \<Rightarrow> world \<times> (py_error + 'f pyval)" where
  "obtener_datos_pokemon E nombre_pokemon w0 =
     (let w = w0\<lparr>requests := requests w0 @ [url_pokemon nombre_pokemon]\<rparr> in
      case obtener_try E nombre_pokemon w of
        Inr (w', v) \<Rightarrow> (w', Inr v)
      | Inl (RequestException e) \<Rightarrow>
          (print (msg_detalles_error e) (print msg_fatal_conexion w), Inr PNone)
      | Inl e \<Rightarrow> (w, Inl e))"

section \<open>Extractor: \<^verbatim>\<open>extraer_informacion_relevante\<close>\<close>

text \<open>
  Lines 56 to 89. The function is one dict display; its values are evaluated in
  the order written, each of them a chain of subscripts and method calls.
\<close>

text \<open>Sequencing of steps that may raise: the first exception ends the evaluation.\<close>

definition and_then :: "'e + 'a \<Rightarrow> ('a \<Rightarrow> 'e + 'b) \<Rightarrow> 'e + 'b" where
  "and_then m f = (case m of Inl e \<Rightarrow> Inl e | Inr x \<Rightarrow> f x)"

fun map_err :: "('a \<Rightarrow> 'e + 'b) \<Rightarrow> 'a list \<Rightarrow> 'e + 'b list" where
  "map_err f [] = Inr []"
| "map_err f (x # xs) = and_then (f x) (\<lambda>y. and_then (map_err f xs) (\<lambda>ys. Inr (y # ys)))"

text \<open>
  \<^verbatim>\<open>v[k]\<close> with a string key: a dict looks the key up and raises
  \<^verbatim>\<open>KeyError\<close> when it is absent; every other value raises \<^verbatim>\<open>TypeError\<close>
  (a list or a string wants an integer index, the rest is not subscriptable).
\<close>

definition getitem :: "'f pyval \<Rightarrow> string \<Rightarrow> py_error + 'f pyval" where
  "getitem v k =
     (case v of
        PDict kvs \<Rightarrow> (case map_of kvs k of None \<Rightarrow> Inl (KeyError k) | Some x \<Rightarrow> Inr x)
      | _ \<Rightarrow> Inl TypeError)"

text \<open>
  \<^verbatim>\<open>for x in v\<close>: the elements of a list, the one-character strings of a
  string, the keys of a dict; iterating over anything else raises \<^verbatim>\<open>TypeError\<close>.
\<close>

definition iter_values :: "'f pyval \<Rightarrow> py_error + 'f pyval list" where
  "iter_values v =
     (case v of
        PList xs \<Rightarrow> Inr xs
      | PStr s \<Rightarrow> Inr (map (\<lambda>c. PStr [c]) s)
      | PDict kvs \<Rightarrow> Inr (map (\<lambda>kv. PStr (fst kv)) kvs)
      | _ \<Rightarrow> Inl TypeError)"

text \<open>
  \<^verbatim>\<open>v[:n]\<close>: a prefix of a list or of a string. A dict raises (\<^verbatim>\<open>TypeError\<close>,
  a slice is not hashable, before Python 3.12), and so does every other value.
\<close>

definition slice_to :: "nat \<Rightarrow> 'f pyval \<Rightarrow> py_error + 'f pyval" where
  "slice_to n v =
     (case v of
        PList xs \<Rightarrow> Inr (PList (take n xs))
      | PStr s \<Rightarrow> Inr (PStr (take n s))
      | _ \<Rightarrow> Inl TypeError)"

text \<open>The methods \<^verbatim>\<open>capitalize\<close> and \<^verbatim>\<open>replace\<close> exist on strings only.\<close>

definition str_capitalize :: "'f pyval \<Rightarrow> py_error + string" where
  "str_capitalize v = (case v of PStr s \<Rightarrow> Inr (capitalize s) | _ \<Rightarrow> Inl AttributeError)"

definition str_replace :: "char \<Rightarrow> char \<Rightarrow> 'f pyval \<Rightarrow> py_error + string" where
  "str_replace a b v = (case v of PStr s \<Rightarrow> Inr (replace_char a b s) | _ \<Rightarrow> Inl AttributeError)"

text \<open>
  \<^verbatim>\<open>v / 10\<close>: defined on numbers (\<^verbatim>\<open>bool\<close> is a subclass of \<^verbatim>\<open>int\<close>);
  the quotient of two integers is a float, or \<^verbatim>\<open>OverflowError\<close> when it is
  too large for one.
\<close>

definition truediv_10 :: "'f float_ops \<Rightarrow> 'f pyval \<Rightarrow> py_error + 'f" where
  "truediv_10 F v =
     (case v of
        PInt i \<Rightarrow> (case int_truediv F i 10 of None \<Rightarrow> Inl OverflowError | Some x \<Rightarrow> Inr x)
      | PBool b \<Rightarrow>
          (case int_truediv F (if b then 1 else 0) 10 of
             None \<Rightarrow> Inl OverflowError | Some x \<Rightarrow> Inr x)
      | PFloat x \<Rightarrow> Inr (float_truediv F x 10)
      | _ \<Rightarrow> Inl TypeError)"

text \<open>The dict the function builds, with its keys in the order of the source.\<close>

record 'f info =
  nombre :: string
  id_pokemon :: "'f pyval"
  peso_kg :: 'f
  altura_m :: 'f
  imagen_frontal_url :: "'f pyval"
  tipos :: "string list"
  habilidades :: "string list"
  movimientos_principales :: "string list"

definition tipo_nombre :: "'f pyval \<Rightarrow> py_error + string" where
  "tipo_nombre t =
     and_then (getitem t ''type'') (\<lambda>x. and_then (getitem x ''name'') str_capitalize)"

definition habilidad_nombre :: "'f pyval \<Rightarrow> py_error + string" where
  "habilidad_nombre a =
     and_then (getitem a ''ability'') (\<lambda>x. and_then (getitem x ''name'') (\<lambda>n.
     and_then (str_replace CHR ''-'' CHR '' '' n) (\<lambda>s. Inr (capitalize s))))"

definition movimiento_nombre :: "'f pyval \<Rightarrow> py_error + string" where
  "movimiento_nombre m =
     and_then (getitem m ''move'') (\<lambda>x. and_then (getitem x ''name'') (\<lambda>n.
     and_then (str_replace CHR ''-'' CHR '' '' n) (\<lambda>s. Inr (capitalize s))))"

definition extraer_informacion_relevante :: "'f float_ops \<Rightarrow> 'f pyval \<Rightarrow> py_error + 'f info" where
  "extraer_informacion_relevante F datos_pokemon =
     and_then (getitem datos_pokemon ''name'') (\<lambda>name.
     and_then (str_capitalize name) (\<lambda>v_nombre.
     and_then (getitem datos_pokemon ''id'') (\<lambda>v_id.
     and_then (getitem datos_pokemon ''weight'') (\<lambda>weight.
     and_then (truediv_10 F weight) (\<lambda>v_peso.
     and_then (getitem datos_pokemon ''height'') (\<lambda>height.
     and_then (truediv_10 F height) (\<lambda>v_altura.
     and_then (getitem datos_pokemon ''sprites'') (\<lambda>sprites.
     and_then (getitem sprites ''front_default'') (\<lambda>v_imagen.
     and_then (getitem datos_pokemon ''types'') (\<lambda>types.
     and_then (iter_values types) (\<lambda>ts.
     and_then (map_err tipo_nombre ts) (\<lambda>v_tipos.
     and_then (getitem datos_pokemon ''abilities'') (\<lambda>abilities.
     and_then (iter_values abilities) (\<lambda>as.
     and_then (map_err habilidad_nombre as) (\<lambda>v_habilidades.
     and_then (getitem datos_pokemon ''moves'') (\<lambda>moves.
     and_then (slice_to 5 moves) (\<lambda>first5.
     and_then (iter_values first5) (\<lambda>ms.
     and_then (map_err movimiento_nombre ms) (\<lambda>v_movimientos.
     Inr \<lparr>nombre = v_nombre, id_pokemon = v_id, peso_kg = v_peso, altura_m = v_altura,
          imagen_frontal_url = v_imagen, tipos = v_tipos, habilidades = v_habilidades,
          movimientos_principales = v_movimientos\<rparr>)))))))))))))))))))"

section \<open>Presenter: \<^verbatim>\<open>mostrar_datos_pokemon\<close>\<close>

text \<open>Lines 91 to 127: fifteen calls of \<^verbatim>\<open>print\<close>.\<close>

text \<open>\<^verbatim>\<open>sep.join(xs)\<close> on a list of strings.\<close>

fun join :: "string \<Rightarrow> string list \<Rightarrow> string" where
  "join sep [] = []"
| "join sep [x] = x"
| "join sep (x # y # ys) = x @ sep @ join sep (y # ys)"

definition hex_digit :: "nat \<Rightarrow> char" where
  "hex_digit n = (if n < 10 then char_of (48 + n) else char_of (87 + n))"

text \<open>
  \<^verbatim>\<open>repr\<close> of a string: single quotes, unless the string has a single quote
  and no double quote; the quote, the backslash and the control characters are
  escaped.
\<close>

definition repr_char :: "char \<Rightarrow> char \<Rightarrow> string" where
  "repr_char q c =
     (let n = (of_char c :: nat) in
      if c = q \<or> c = CHR 0x5C then [CHR 0x5C, c]
      else if n = 9 then [CHR 0x5C, CHR ''t'']
      else if n = 10 then [CHR 0x5C, CHR ''n'']
      else if n = 13 then [CHR 0x5C, CHR ''r'']
      else if n < 32 \<or> n = 127 then [CHR 0x5C, CHR ''x'', hex_digit (n div 16), hex_digit (n mod 16)]
      else [c])"

definition repr_str :: "string \<Rightarrow> string" where
  "repr_str s =
     (let q = (if CHR 0x27 \<in> set s \<and> CHR 0x22 \<notin> set s then CHR 0x22 else CHR 0x27)
      in [q] @ concat (map (repr_char q) s) @ [q])"

fun py_repr :: "'f float_ops \<Rightarrow> 'f pyval \<Rightarrow> string" where
  "py_repr F PNone = ''None''"
| "py_repr F (PBool b) = (if b then ''True'' else ''False'')"
| "py_repr F (PInt i) = str_int i"
| "py_repr F (PFloat x) = float_repr F x"
| "py_repr F (PStr s) = repr_str s"
| "py_repr F (PList xs) = ''['' @ join '', '' (map (py_repr F) xs) @ '']''"
| "py_repr F (PDict kvs) =
     ''{'' @ join '', '' (map (\<lambda>kv. repr_str (fst kv) @ '': '' @ py_repr F (snd kv)) kvs) @ ''}''"

text \<open>\<^verbatim>\<open>str(v)\<close>, which an f-string applies: a string is itself, the rest is its \<^verbatim>\<open>repr\<close>.\<close>

definition py_str :: "'f float_ops \<Rightarrow> 'f pyval \<Rightarrow> string" where
  "py_str F v = (case v of PStr s \<Rightarrow> s | _ \<Rightarrow> py_repr F v)"

definition linea_borde :: string where
  "linea_borde = [CHR 0x0A] @ replicate 40 CHR ''=''"

definition mostrar_datos_pokemon :: "'f float_ops \<Rightarrow> 'f info \<Rightarrow> world \<Rightarrow> world" where
  "mostrar_datos_pokemon F info_pokemon w =
     foldl (\<lambda>w s. print s w) w
       [linea_borde,
        [CHR 0xC2, CHR 0xA1] @ ''POK'' @ [CHR 0xC3, CHR 0x89] @ ''MON ENCONTRADO! - '' @
          nombre info_pokemon @ '' (ID: '' @ py_str F (id_pokemon info_pokemon) @ '')'',
        replicate 40 CHR ''='',
        '' ESTAD'' @ [CHR 0xC3, CHR 0x8D] @ ''STICAS'',
        ''  Peso: '' @ float_repr F (peso_kg info_pokemon) @ '' kg'',
        ''  Tama'' @ [CHR 0xC3, CHR 0xB1] @ ''o (Altura): '' @ float_repr F (altura_m info_pokemon) @ '' m'',
        ''TIPOS'',
        ''  Tipos: '' @ join '', '' (tipos info_pokemon),
        ''HABILIDADES'',
        ''  Habilidades: '' @ join '', '' (habilidades info_pokemon),
        ''MOVIMIENTOS PRINCIPALES'',
        ''  Top 5 Movimientos: '' @ join '', '' (movimientos_principales info_pokemon),
        ''IMAGEN'',
        ''  Link de Imagen Frontal: '' @ py_str F (imagen_frontal_url info_pokemon),
        linea_borde]"

section \<open>Persister: \<^verbatim>\<open>guardar_informacion_json\<close>\<close>

text \<open>
  Lines 130 to 160. The function calls \<^verbatim>\<open>os.makedirs\<close>, \<^verbatim>\<open>os.path.join\<close>,
  \<^verbatim>\<open>open\<close> and \<^verbatim>\<open>json.dump\<close>; each is modelled first.
\<close>

subsection \<open>\<^verbatim>\<open>json.dump\<close> with \<^verbatim>\<open>indent\<close> and \<^verbatim>\<open>ensure_ascii=False\<close>\<close>

text \<open>
  A string is written between double quotes; the double quote, the backslash
  and the characters below \<open>0x20\<close> are escaped, every other character is
  written as it is.
\<close>

definition json_escape_char :: "char \<Rightarrow> string" where
  "json_escape_char c =
     (let n = (of_char c :: nat) in
      if c = CHR 0x22 then [CHR 0x5C, CHR 0x22]
      else if c = CHR 0x5C then [CHR 0x5C, CHR 0x5C]
      else if n = 8 then [CHR 0x5C, CHR ''b'']
      else if n = 12 then [CHR 0x5C, CHR ''f'']
      else if n = 10 then [CHR 0x5C, CHR ''n'']
      else if n = 13 then [CHR 0x5C, CHR ''r'']
      else if n = 9 then [CHR 0x5C, CHR ''t'']
      else if n < 32 then
        [CHR 0x5C, CHR ''u'', CHR ''0'', CHR ''0'', hex_digit (n div 16), hex_digit (n mod 16)]
      else [c])"

definition encode_basestring :: "string \<Rightarrow> string" where
  "encode_basestring s = [CHR 0x22] @ concat (map json_escape_char s) @ [CHR 0x22]"

definition newline_indent :: "nat \<Rightarrow> nat \<Rightarrow> string" where
  "newline_indent indent level = CHR 0x0A # replicate (indent * level) CHR '' ''"

text \<open>
  The encoder at nesting depth \<open>level\<close>. An empty list or dict is written
  \<^verbatim>\<open>[]\<close> or \<^verbatim>\<open>{}\<close>; otherwise each item is on a line of its own, one step
  deeper, the items separated by a comma.
\<close>

fun json_encode :: "'f float_ops \<Rightarrow> nat \<Rightarrow> nat \<Rightarrow> 'f pyval \<Rightarrow> string" where
  "json_encode F indent level PNone = ''null''"
| "json_encode F indent level (PBool b) = (if b then ''true'' else ''false'')"
| "json_encode F indent level (PInt i) = str_int i"
| "json_encode F indent level (PFloat x) = float_json F x"
| "json_encode F indent level (PStr s) = encode_basestring s"
| "json_encode F indent level (PList xs) =
     (if xs = [] then ''[]''
      else ''['' @ newline_indent indent (Suc level) @
           join ('','' @ newline_indent indent (Suc level))
             (map (json_encode F indent (Suc level)) xs) @
           newline_indent indent level @ '']'')"
| "json_encode F indent level (PDict kvs) =
     (if kvs = [] then ''{}''
      else ''{'' @ newline_indent indent (Suc level) @
           join ('','' @ newline_indent indent (Suc level))
             (map (\<lambda>kv. encode_basestring (fst kv) @ '': '' @
                         json_encode F indent (Suc level) (snd kv)) kvs) @
           newline_indent indent level @ ''}'')"

definition info_dict :: "'f info \<Rightarrow> 'f pyval" where
  "info_dict I =
     PDict [(''nombre'', PStr (nombre I)),
            (''id'', id_pokemon I),
            (''peso_kg'', PFloat (peso_kg I)),
            (''altura_m'', PFloat (altura_m I)),
            (''imagen_frontal_url'', imagen_frontal_url I),
            (''tipos'', PList (map PStr (tipos I))),
            (''habilidades'', PList (map PStr (habilidades I))),
            (''movimientos_principales'', PList (map PStr (movimientos_principales I)))]"

definition json_dump :: "'f float_ops \<Rightarrow> 'f info \<Rightarrow> string" where
  "json_dump F info_pokemon = json_encode F 4 0 (info_dict info_pokemon)"

subsection \<open>The file system calls\<close>

text \<open>
  \<^verbatim>\<open>os.path.join(a, b)\<close> on a POSIX system: a second part that starts with
  a slash replaces the first.
\<close>

definition path_join :: "string \<Rightarrow> string \<Rightarrow> string" where
  "path_join a b =
     (if b \<noteq> [] \<and> hd b = CHR ''/'' then b
      else if a = [] \<or> last a = CHR ''/'' then a @ b
      else a @ ''/'' @ b)"

text \<open>
  \<^verbatim>\<open>os.makedirs(p, exist_ok=True)\<close>: nothing to do when the directory
  exists; \<^verbatim>\<open>OSError\<close> (\<open>Inl\<close>, with its text) when a file has that name or
  when the system refuses.
\<close>

definition makedirs :: "'f env \<Rightarrow> string \<Rightarrow> world \<Rightarrow> string + world" where
  "makedirs E p w =
     (if p \<in> dirs w then Inr w
      else if files w p \<noteq> None then Inl (''[Errno 17] File exists: '' @ repr_str p)
      else case mkdir_denied E p of
             Some msg \<Rightarrow> Inl msg
           | None \<Rightarrow> Inr (w\<lparr>dirs := insert p (dirs w)\<rparr>))"

text \<open>\<^verbatim>\<open>open(p, 'w')\<close>: the file is created or emptied.\<close>

definition open_w :: "'f env \<Rightarrow> string \<Rightarrow> world \<Rightarrow> string + world" where
  "open_w E p w =
     (if p \<in> dirs w then Inl (''[Errno 21] Is a directory: '' @ repr_str p)
      else case open_denied E p of
             Some msg \<Rightarrow> Inl msg
           | None \<Rightarrow> Inr (w\<lparr>files := (files w)(p \<mapsto> [])\<rparr>))"

text \<open>Writing the text and closing the file; a fault leaves a prefix of the text.\<close>

definition write_all :: "'f env \<Rightarrow> string \<Rightarrow> string \<Rightarrow> world \<Rightarrow> world \<times> string option" where
  "write_all E p txt w =
     (case write_fault E p of
        None \<Rightarrow> (w\<lparr>files := (files w)(p \<mapsto> txt)\<rparr>, None)
      | Some (n, msg) \<Rightarrow>
          if n < length txt then (w\<lparr>files := (files w)(p \<mapsto> take n txt)\<rparr>, Some msg)
          else (w\<lparr>files := (files w)(p \<mapsto> txt)\<rparr>, None))"

subsection \<open>The function\<close>

definition nombre_archivo :: "'f info \<Rightarrow> string" where
  "nombre_archivo info_pokemon =
     replace_char CHR '' '' CHR ''_'' (lower (nombre info_pokemon)) @ ''.json''"

definition ruta_completa :: "'f info \<Rightarrow> string" where
  "ruta_completa info_pokemon = path_join POKEDEX_FOLDER (nombre_archivo info_pokemon)"

definition msg_error_carpeta :: "string \<Rightarrow> string" where
  "msg_error_carpeta e =
     [CHR 0x0A] @ ''Error al crear la carpeta '' @ [CHR 0x27] @ POKEDEX_FOLDER @ [CHR 0x27] @
     '': '' @ e"

definition msg_error_escribir :: "string \<Rightarrow> string \<Rightarrow> string" where
  "msg_error_escribir ruta e =
     [CHR 0x0A] @ ''Error al escribir el archivo JSON en '' @ ruta @ '': '' @ e"

definition msg_guardada :: "string \<Rightarrow> string" where
  "msg_guardada n = ''Informaci'' @ o_acute @ ''n de '' @ n @ '' guardada exitosamente en:''"

definition guardar_informacion_json :: "'f env \<Rightarrow> 'f info \<Rightarrow> world \<Rightarrow> world" where
  "guardar_informacion_json E info_pokemon w =
     (case makedirs E POKEDEX_FOLDER w of
        Inl e \<Rightarrow> print (msg_error_carpeta e) w
      | Inr w1 \<Rightarrow>
          (case open_w E (ruta_completa info_pokemon) w1 of
             Inl e \<Rightarrow> print (msg_error_escribir (ruta_completa info_pokemon) e) w1
           | Inr w2 \<Rightarrow>
               (case write_all E (ruta_completa info_pokemon)
                       (json_dump (float E) info_pokemon) w2 of
                  (w3, Some e) \<Rightarrow> print (msg_error_escribir (ruta_completa info_pokemon) e) w3
                | (w3, None) \<Rightarrow>
                    print (''   -> '' @ ruta_completa info_pokemon)
                      (print (msg_guardada (nombre info_pokemon)) w3))))"

text \<open>
  The conditions under which nothing fails: the folder exists or can be
  made, the path is not a directory, and the system lets the file be opened
  and written in full.
\<close>

definition escritura_posible :: "'f env \<Rightarrow> 'f info \<Rightarrow> world \<Rightarrow> bool" where
  "escritura_posible E info_pokemon w \<longleftrightarrow>
     (POKEDEX_FOLDER \<in> dirs w \<or>
      (files w POKEDEX_FOLDER = None \<and> mkdir_denied E POKEDEX_FOLDER = None)) \<and>
     ruta_completa info_pokemon \<notin> dirs w \<and>
     open_denied E (ruta_completa info_pokemon) = None \<and>
     write_fault E (ruta_completa info_pokemon) = None"

section \<open>Orchestrator: \<^verbatim>\<open>ejecutar_pokedex\<close>\<close>

text \<open>Lines 163 to 194.\<close>

text \<open>The truth value of a Python value, as \<^verbatim>\<open>if datos_completos:\<close> takes it.\<close>

definition truthy :: "'f float_ops \<Rightarrow> 'f pyval \<Rightarrow> bool" where
  "truthy F v =
     (case v of
        PNone \<Rightarrow> False
      | PBool b \<Rightarrow> b
      | PInt i \<Rightarrow> i \<noteq> 0
      | PFloat x \<Rightarrow> float_bool F x
      | PStr s \<Rightarrow> s \<noteq> []
      | PList xs \<Rightarrow> xs \<noteq> []
      | PDict kvs \<Rightarrow> kvs \<noteq> [])"

definition cabecera :: "string list" where
  "cabecera =
     [''===================================='',
      ''       PROYECTO POK'' @ [CHR 0xC3, CHR 0x89] @ ''DEX       '',
      ''===================================='',
      ''Consulta detalles de cualquier Pok'' @ e_acute @
        ''mon usando la PokeAPI (https://pokeapi.co/).'',
      ''Bibliotecas requeridas: requests, json, os.'']"

definition prompt_nombre :: string where
  "prompt_nombre = [CHR 0x0A] @ ''Introduce el nombre del Pok'' @ e_acute @ ''mon a buscar: ''"

definition msg_nombre_vacio :: string where
  "msg_nombre_vacio =
     ''El nombre del Pok'' @ e_acute @ ''mon no puede estar vac'' @ [CHR 0xC3, CHR 0xAD] @ ''o.''"

text \<open>
  One run. \<open>tras_prompt\<close> is the state once the heading and the prompt
  are printed. \<open>entrada\<close> is the line \<^verbatim>\<open>input\<close> returns, or \<open>None\<close> at the
  end of the input, where \<^verbatim>\<open>input\<close> raises \<^verbatim>\<open>EOFError\<close>. The result is
  the final state and the exception that left the function, if one did: the
  script calls the function at top level with nothing around it, so such an
  exception ends the process with a traceback.
\<close>

definition tras_prompt :: "world \<Rightarrow> world" where
  "tras_prompt w0 = print prompt_nombre (foldl (\<lambda>w s. print s w) w0 cabecera)"

definition ejecutar_pokedex :: "'f env \<Rightarrow> string option \<Rightarrow> world \<Rightarrow> world \<times> py_error option" where
  "ejecutar_pokedex E entrada w0 =
     (let w1 = tras_prompt w0 in
      case entrada of
        None \<Rightarrow> (w1, Some EOFError)
      | Some nombre_busqueda \<Rightarrow>
          if nombre_busqueda = [] then (print msg_nombre_vacio w1, None)
          else
            (case obtener_datos_pokemon E nombre_busqueda w1 of
               (w2, Inl e) \<Rightarrow> (w2, Some e)
             | (w2, Inr datos_completos) \<Rightarrow>
                 if truthy (float E) datos_completos then
                   (case extraer_informacion_relevante (float E) datos_completos of
                      Inl e \<Rightarrow> (w2, Some e)
                    | Inr info_a_guardar \<Rightarrow>
                        (guardar_informacion_json E info_a_guardar
                           (mostrar_datos_pokemon (float E) info_a_guardar w2), None))
                 else (w2, None)))"

section \<open>The keys the service is expected to send\<close>




text \<open>\<^verbatim>\<open>v[k]["name"]\<close>, the name the service gives under the key \<open>k\<close>.\<close>

definition name_under :: "string \<Rightarrow> 'f pyval \<Rightarrow> py_error + 'f pyval" where
  "name_under k v = and_then (getitem v k) (\<lambda>x. getitem x ''name'')"


section \<open>A concrete environment for running the model\<close>

text \<open>
  The theorems below hold for every \<open>float_ops\<close>. To run the model on
  examples, the numbers \<open>m / 10 ^ k\<close> stand in for the floats, as pairs
  \<open>(m, k)\<close>: dividing by ten is exact on them, and they print with their
  \<open>k\<close> decimals (at least one).
\<close>

fun pad_left :: "nat \<Rightarrow> string \<Rightarrow> string" where
  "pad_left k s = replicate (k - length s) CHR ''0'' @ s"

definition decimal_repr :: "int \<times> nat \<Rightarrow> string" where
  "decimal_repr x =
     (case x of (m, k) \<Rightarrow>
        (if m < 0 then ''-'' else []) @ str_pos (\<bar>m\<bar> div 10 ^ k) @ ''.'' @
        (if k = 0 then ''0'' else pad_left k (str_pos (\<bar>m\<bar> mod 10 ^ k))))"

definition decimal_ops :: "(int \<times> nat) float_ops" where
  "decimal_ops =
     \<lparr>int_truediv = (\<lambda>a b. if b = 10 then Some (a, 1) else None),
      float_truediv = (\<lambda>x b. if b = 10 then (fst x, Suc (snd x)) else x),
      float_bool = (\<lambda>x. fst x \<noteq> 0),
      float_repr = decimal_repr,
      float_json = decimal_repr\<rparr>"

text \<open>
  An environment with the service \<open>get\<close> and an operating system that
  refuses nothing, a service that knows one name, and the state before the run.
\<close>

definition env_of :: "(string \<Rightarrow> (int \<times> nat) http_outcome) \<Rightarrow> (int \<times> nat) env" where
  "env_of get =
     \<lparr>http_get = get, float = decimal_ops, mkdir_denied = (\<lambda>p. None),
      open_denied = (\<lambda>p. None), write_fault = (\<lambda>p. None)\<rparr>"

definition ok_200 :: "'f pyval \<Rightarrow> 'f http_outcome" where
  "ok_200 v = Responds \<lparr>status_code = 200, json = Inr v\<rparr>"

definition status_only :: "int \<Rightarrow> 'f http_outcome" where
  "status_only code =
     Responds \<lparr>status_code = code, json = Inl (OtherException ''JSONDecodeError'')\<rparr>"

definition world0 :: world where
  "world0 = \<lparr>stdout = [], requests = [], dirs = {}, files = Map.empty\<rparr>"

text \<open>A record of the shape the service sends, cut down to the keys the script reads.\<close>

definition named :: "string \<Rightarrow> string \<Rightarrow> 'f pyval" where
  "named k n = PDict [(k, PDict [(''name'', PStr n), (''url'', PStr ''https://pokeapi.co/'')])]"

definition bulbasaur :: "(int \<times> nat) pyval" where
  "bulbasaur =
     PDict [(''abilities'', PList [named ''ability'' ''overgrow'', named ''ability'' ''chlorophyll'']),
            (''height'', PInt 7),
            (''id'', PInt 1),
            (''moves'', PList [named ''move'' ''razor-wind'', named ''move'' ''swords-dance'',
                               named ''move'' ''cut'', named ''move'' ''bind'',
                               named ''move'' ''vine-whip'', named ''move'' ''headbutt'',
                               named ''move'' ''tackle'']),
            (''name'', PStr ''bulbasaur''),
            (''sprites'', PDict [(''back_default'', PNone), (''front_default'', PStr ''https://img/1.png'')]),
            (''types'', PList [named ''type'' ''grass'', named ''type'' ''poison'']),
            (''weight'', PInt 69)]"


text \<open>What the Extractor makes of \<open>bulbasaur\<close>, and a record with a given name.\<close>

definition info_bulbasaur :: "(int \<times> nat) info" where
  "info_bulbasaur =
     \<lparr>nombre = ''Bulbasaur'', id_pokemon = PInt 1, peso_kg = (69, 1), altura_m = (7, 1),
      imagen_frontal_url = PStr ''https://img/1.png'', tipos = [''Grass'', ''Poison''],
      habilidades = [''Overgrow'', ''Chlorophyll''],
      movimientos_principales = [''Razor wind'', ''Swords dance'', ''Cut'', ''Bind'', ''Vine whip'']\<rparr>"


text \<open>A text between double quotes, and the file the Persister writes for \<open>bulbasaur\<close>.\<close>

definition quoted :: "string \<Rightarrow> string" where
  "quoted s = [CHR 0x22] @ s @ [CHR 0x22]"

definition bulbasaur_json :: string where
  "bulbasaur_json =
     join [CHR 0x0A]
       [''{'',
        ''    '' @ quoted ''nombre'' @ '': '' @ quoted ''Bulbasaur'' @ '','',
        ''    '' @ quoted ''id'' @ '': 1,'',
        ''    '' @ quoted ''peso_kg'' @ '': 6.9,'',
        ''    '' @ quoted ''altura_m'' @ '': 0.7,'',
        ''    '' @ quoted ''imagen_frontal_url'' @ '': '' @ quoted ''https://img/1.png'' @ '','',
        ''    '' @ quoted ''tipos'' @ '': ['',
        ''        '' @ quoted ''Grass'' @ '','',
        ''        '' @ quoted ''Poison'',
        ''    ],'',
        ''    '' @ quoted ''habilidades'' @ '': ['',
        ''        '' @ quoted ''Overgrow'' @ '','',
        ''        '' @ quoted ''Chlorophyll'',
        ''    ],'',
        ''    '' @ quoted ''movimientos_principales'' @ '': ['',
        ''        '' @ quoted ''Razor wind'' @ '','',
        ''        '' @ quoted ''Swords dance'' @ '','',
        ''        '' @ quoted ''Cut'' @ '','',
        ''        '' @ quoted ''Bind'' @ '','',
        ''        '' @ quoted ''Vine whip'',
        ''    ]'',
        ''}'']"

definition servicio :: "string \<Rightarrow> (int \<times> nat) http_outcome" where
  "servicio url = (if url = BASE_URL @ ''bulbasaur'' then ok_200 bulbasaur else status_only 404)"

section \<open>What each function does to the state\<close>

lemma print_fields [simp]:
  "stdout (print s w) = stdout w @ [s]"
  "requests (print s w) = requests w"
  "dirs (print s w) = dirs w"
  "files (print s w) = files w"
  by (simp_all add: print_def)

lemma print_all_fields [simp]:
  "stdout (foldl (\<lambda>w s. print s w) w xs) = stdout w @ xs"
  "requests (foldl (\<lambda>w s. print s w) w xs) = requests w"
  "dirs (foldl (\<lambda>w s. print s w) w xs) = dirs w"
  "files (foldl (\<lambda>w s. print s w) w xs) = files w"
  by (induction xs arbitrary: w) simp_all

lemma obtener_requests:
  "requests (fst (obtener_datos_pokemon E n w)) = requests w @ [url_pokemon n]"
  by (auto simp: obtener_datos_pokemon_def obtener_try_def Let_def
           split: http_outcome.splits sum.splits py_error.splits)

lemma obtener_fs:
  "files (fst (obtener_datos_pokemon E n w)) = files w"
  "dirs (fst (obtener_datos_pokemon E n w)) = dirs w"
  by (auto simp: obtener_datos_pokemon_def obtener_try_def Let_def
           split: http_outcome.splits sum.splits py_error.splits)

lemma mostrar_fields [simp]:
  "requests (mostrar_datos_pokemon F I w) = requests w"
  "dirs (mostrar_datos_pokemon F I w) = dirs w"
  "files (mostrar_datos_pokemon F I w) = files w"
  by (simp_all add: mostrar_datos_pokemon_def)

lemma guardar_requests [simp]:
  "requests (guardar_informacion_json E I w) = requests w"
  by (auto simp: guardar_informacion_json_def makedirs_def open_w_def write_all_def
           split: sum.splits option.splits prod.splits if_splits)

lemma ejecutar_requests:
  "n \<noteq> [] \<Longrightarrow> requests (fst (ejecutar_pokedex E (Some n) w)) = requests w @ [url_pokemon n]"
  using obtener_requests [of E n "tras_prompt w"]
  by (auto simp: ejecutar_pokedex_def tras_prompt_def Let_def split: prod.splits sum.splits)

section \<open>Blank input (C2)\<close>

lemma norm_spaces: "nombre_normalizado ''   '' = []"
  by (simp add: nombre_normalizado_def strip_def lower_def lower_char_def is_upper_ascii_def
        is_space_def)

text \<open>
  C2. The claim: on an input line that is empty or only whitespace, the run
  ends after reading the input, with a message and before any network call.
  The guard of \<^verbatim>\<open>ejecutar_pokedex\<close> is \<^verbatim>\<open>if not nombre_busqueda\<close>, which
  only the empty string meets. On a line of three spaces the run goes on to
  the Fetcher, which strips the name to the empty string and requests the
  base URL itself: whatever the environment and the state, one request is made.
\<close>

theorem whitespace_input_reaches_network:
  "requests (fst (ejecutar_pokedex E (Some ''   '') w)) = requests w @ [BASE_URL]"
  using ejecutar_requests [of "''   ''" E w] by (simp add: url_pokemon_def norm_spaces)

section \<open>The outcomes of the Fetcher (C3)\<close>





section \<open>Normalising the name (C9)\<close>

lemma of_char_lower_upper:
  "is_upper_ascii c \<Longrightarrow> (of_char (lower_char c) :: nat) = of_char c + 32"
  by (simp add: lower_char_def is_upper_ascii_def)

lemma lower_char_idem [simp]: "lower_char (lower_char c) = lower_char c"
proof (cases "is_upper_ascii c")
  case True
  then have "\<not> is_upper_ascii (lower_char c)"
    using of_char_lower_upper [OF True] by (simp add: is_upper_ascii_def)
  then show ?thesis by (simp add: lower_char_def)
next
  case False
  then show ?thesis by (simp add: lower_char_def)
qed

lemma is_space_lower_char [simp]: "is_space (lower_char c) = is_space c"
proof (cases "is_upper_ascii c")
  case True
  then show ?thesis
    using of_char_lower_upper [OF True] by (simp add: is_space_def is_upper_ascii_def Let_def)
next
  case False
  then show ?thesis by (simp add: lower_char_def)
qed

lemma lower_idem [simp]: "lower (lower s) = lower s"
  by (simp add: lower_def)

lemma strip_lower: "strip (lower s) = lower (strip s)"
  by (simp add: strip_def rev_map lower_def dropWhile_map comp_def)

lemma dropWhile_id: "xs = [] \<or> \<not> P (hd xs) \<Longrightarrow> dropWhile P xs = xs"
  by (cases xs) auto

lemma hd_dropWhile_not: "dropWhile P xs = [] \<or> \<not> P (hd (dropWhile P xs))"
  by (metis hd_dropWhile)

text \<open>Stripping leaves nothing to strip: the ends of the result are not spaces.\<close>

lemma strip_idem [simp]: "strip (strip s) = strip s"
proof -
  define a where "a = dropWhile is_space s"
  define b where "b = dropWhile is_space (rev a)"
  have a: "a = [] \<or> \<not> is_space (hd a)" unfolding a_def by (rule hd_dropWhile_not)
  have b: "b = [] \<or> \<not> is_space (hd b)" unfolding b_def by (rule hd_dropWhile_not)
  have "rev b = [] \<or> \<not> is_space (hd (rev b))"
  proof (cases "b = []")
    case True then show ?thesis by simp
  next
    case False
    then have "a \<noteq> []" unfolding b_def by auto
    have "last b = last (rev a)" unfolding b_def
      using False by (metis b_def append_Nil2 last_appendR takeWhile_dropWhile_id)
    then have "hd (rev b) = hd a" using False \<open>a \<noteq> []\<close> by (simp add: hd_rev last_rev)
    then show ?thesis using a \<open>a \<noteq> []\<close> by simp
  qed
  then have 1: "dropWhile is_space (rev b) = rev b" by (rule dropWhile_id)
  have 2: "dropWhile is_space b = b" using b by (rule dropWhile_id)
  show ?thesis
    unfolding strip_def a_def [symmetric] b_def [symmetric] by (simp add: 1 2)
qed

lemma nombre_normalizado_idem [simp]:
  "nombre_normalizado (nombre_normalizado q) = nombre_normalizado q"
  by (simp add: nombre_normalizado_def strip_lower)







section \<open>The gate after the fetch (C10)\<close>

lemma tras_prompt_fields [simp]:
  "stdout (tras_prompt w) = stdout w @ cabecera @ [prompt_nombre]"
  "requests (tras_prompt w) = requests w"
  "dirs (tras_prompt w) = dirs w"
  "files (tras_prompt w) = files w"
  by (simp_all add: tras_prompt_def)

lemma ejecutar_after_fetch:
  "n \<noteq> [] \<Longrightarrow> obtener_datos_pokemon E n (tras_prompt w) = (w2, Inr d) \<Longrightarrow>
   ejecutar_pokedex E (Some n) w =
     (if truthy (float E) d then
        (case extraer_informacion_relevante (float E) d of
           Inl e \<Rightarrow> (w2, Some e)
         | Inr I \<Rightarrow>
             (guardar_informacion_json E I (mostrar_datos_pokemon (float E) I w2), None))
      else (w2, None))"
  by (simp add: ejecutar_pokedex_def Let_def)

lemma obtener_200:
  "http_get E (url_pokemon n) = Responds r \<Longrightarrow> status_code r = 200 \<Longrightarrow> json r = Inr v \<Longrightarrow>
   obtener_datos_pokemon E n w = (w\<lparr>requests := requests w @ [url_pokemon n]\<rparr>, Inr v)"
  by (simp add: obtener_datos_pokemon_def obtener_try_def Let_def)

text \<open>
  C10. Once a non-empty line is read and the Fetcher has returned a value
  \<open>d\<close> in the state \<open>w2\<close>: when \<open>d\<close> is not truthy the run ends there,
  with no exception and the file system as it was at the start; when \<open>d\<close>
  is truthy the run is the extraction of \<open>d\<close>, then display and persistence
  of its result. In particular a 200 response with a falsy body (such as
  \<^verbatim>\<open>{}\<close>) ends the run as the \<^verbatim>\<open>None\<close> of a failed fetch does: nothing
  is printed after the prompt and no file is written.
\<close>

theorem orchestrator_gate:
  "(n \<noteq> [] \<and> obtener_datos_pokemon E n (tras_prompt w) = (w2, Inr d) \<and>
      \<not> truthy (float E) d \<longrightarrow>
      ejecutar_pokedex E (Some n) w = (w2, None) \<and> files w2 = files w \<and> dirs w2 = dirs w) \<and>
   (n \<noteq> [] \<and> obtener_datos_pokemon E n (tras_prompt w) = (w2, Inr d) \<and>
      truthy (float E) d \<longrightarrow>
      ejecutar_pokedex E (Some n) w =
        (case extraer_informacion_relevante (float E) d of
           Inl e \<Rightarrow> (w2, Some e)
         | Inr I \<Rightarrow>
             (guardar_informacion_json E I (mostrar_datos_pokemon (float E) I w2), None))) \<and>
   (n \<noteq> [] \<and> http_get E (url_pokemon n) = Responds r \<and> status_code r = 200 \<and>
      json r = Inr v \<and> \<not> truthy (float E) v \<longrightarrow>
      ejecutar_pokedex E (Some n) w =
        ((tras_prompt w)\<lparr>requests := requests w @ [url_pokemon n]\<rparr>, None)) \<and>
   \<not> truthy (float E) PNone \<and> \<not> truthy (float E) (PDict [])"
proof -
  have fs: "obtener_datos_pokemon E n (tras_prompt w) = (w2, Inr d) \<Longrightarrow>
            files w2 = files w \<and> dirs w2 = dirs w"
    using obtener_fs [of E n "tras_prompt w"] by simp
  have p: "n \<noteq> [] \<Longrightarrow> http_get E (url_pokemon n) = Responds r \<Longrightarrow> status_code r = 200 \<Longrightarrow>
           json r = Inr v \<Longrightarrow> \<not> truthy (float E) v \<Longrightarrow>
           ejecutar_pokedex E (Some n) w =
             ((tras_prompt w)\<lparr>requests := requests w @ [url_pokemon n]\<rparr>, None)"
    using ejecutar_after_fetch [of n E w _ v] obtener_200 [of E n r v "tras_prompt w"] by simp
  show ?thesis
    using fs p by (auto simp: ejecutar_after_fetch truthy_def)
qed

theorem orchestrator_gate_witness:
  "ejecutar_pokedex (env_of (\<lambda>url. ok_200 (PDict []))) (Some ''bulbasaur'') world0 =
     ((tras_prompt world0)\<lparr>requests := [BASE_URL @ ''bulbasaur'']\<rparr>, None) \<and>
   ejecutar_pokedex (env_of (\<lambda>url. status_only 404)) (Some ''bulbasaur'') world0 =
     ((tras_prompt world0)\<lparr>requests := [BASE_URL @ ''bulbasaur''],
         stdout := cabecera @ [prompt_nombre, msg_no_existe ''bulbasaur'']\<rparr>, None) \<and>
   (\<exists>I. extraer_informacion_relevante decimal_ops bulbasaur = Inr I \<and>
        ejecutar_pokedex (env_of servicio) (Some ''bulbasaur'') world0 =
          (guardar_informacion_json (env_of servicio) I
             (mostrar_datos_pokemon decimal_ops I
                ((tras_prompt world0)\<lparr>requests := [BASE_URL @ ''bulbasaur'']\<rparr>)), None))"
proof -
  have u: "url_pokemon ''bulbasaur'' = BASE_URL @ ''bulbasaur''"
    unfolding url_pokemon_def nombre_normalizado_def by code_simp
  have f: "float (env_of g) = decimal_ops" for g by (simp add: env_of_def)
  have o1: "obtener_datos_pokemon (env_of (\<lambda>url. ok_200 (PDict []))) ''bulbasaur''
              (tras_prompt world0) =
            ((tras_prompt world0)\<lparr>requests := [BASE_URL @ ''bulbasaur'']\<rparr>, Inr (PDict []))"
    by (simp add: obtener_datos_pokemon_def obtener_try_def Let_def u env_of_def ok_200_def
        world0_def)
  have o2: "obtener_datos_pokemon (env_of (\<lambda>url. status_only 404)) ''bulbasaur''
              (tras_prompt world0) =
            ((tras_prompt world0)\<lparr>requests := [BASE_URL @ ''bulbasaur''],
                stdout := cabecera @ [prompt_nombre, msg_no_existe ''bulbasaur'']\<rparr>, Inr PNone)"
    by (simp add: obtener_datos_pokemon_def obtener_try_def Let_def u env_of_def status_only_def
        world0_def print_def)
  have o3: "obtener_datos_pokemon (env_of servicio) ''bulbasaur'' (tras_prompt world0) =
            ((tras_prompt world0)\<lparr>requests := [BASE_URL @ ''bulbasaur'']\<rparr>, Inr bulbasaur)"
    by (simp add: obtener_datos_pokemon_def obtener_try_def Let_def u env_of_def ok_200_def
        servicio_def world0_def)
  have t: "truthy decimal_ops bulbasaur" by code_simp
  have t0: "\<not> truthy decimal_ops (PDict [])" "\<not> truthy decimal_ops PNone"
    by (simp_all add: truthy_def)
  obtain I where I: "extraer_informacion_relevante decimal_ops bulbasaur = Inr I"
  proof -
    have "\<not> isl (extraer_informacion_relevante decimal_ops bulbasaur)" by code_simp
    then show ?thesis using that by (cases "extraer_informacion_relevante decimal_ops bulbasaur") auto
  qed
  show ?thesis
    using
      orchestrator_gate [of "''bulbasaur''" "env_of (\<lambda>url. ok_200 (PDict []))" world0
        "(tras_prompt world0)\<lparr>requests := [BASE_URL @ ''bulbasaur'']\<rparr>" "PDict []"]
      orchestrator_gate [of "''bulbasaur''" "env_of (\<lambda>url. status_only 404)" world0
        "(tras_prompt world0)\<lparr>requests := [BASE_URL @ ''bulbasaur''],
                stdout := cabecera @ [prompt_nombre, msg_no_existe ''bulbasaur'']\<rparr>" PNone]
      orchestrator_gate [of "''bulbasaur''" "env_of servicio" world0
        "(tras_prompt world0)\<lparr>requests := [BASE_URL @ ''bulbasaur'']\<rparr>" bulbasaur]
    by (simp add: o1 o2 o3 f t t0 I)
qed

section \<open>A record of the wrong shape (C1)\<close>

lemma and_then_Inr: "and_then m f = Inr y \<longleftrightarrow> (\<exists>x. m = Inr x \<and> f x = Inr y)"
  by (cases m) (simp_all add: and_then_def)


lemma map_err_Inr:
  "map_err f xs = Inr ys \<Longrightarrow> length ys = length xs \<and> (\<forall>i < length xs. f (xs ! i) = Inr (ys ! i))"
proof (induction xs arbitrary: ys)
  case Nil
  then show ?case by simp
next
  case (Cons x xs)
  from Cons.prems obtain y ys' where y: "f x = Inr y" and ys': "map_err f xs = Inr ys'"
    and eq: "ys = y # ys'"
    by (auto simp: and_then_Inr)
  from Cons.IH [OF ys'] y eq show ?case
    by (auto simp: nth_Cons split: nat.splits)
qed
























section \<open>The first five moves (C4)\<close>

lemma upper_char_not_hyphen: "c \<noteq> CHR ''-'' \<Longrightarrow> upper_char c \<noteq> CHR ''-''"
proof (cases "is_lower_ascii c")
  case True
  then have "(of_char c :: nat) - 32 < 256"
    unfolding is_lower_ascii_def by arith
  with True have "(of_char (upper_char c) :: nat) = of_char c - 32"
    by (simp add: upper_char_def)
  with True have "(of_char (upper_char c) :: nat) \<noteq> of_char CHR ''-''"
    by (simp add: is_lower_ascii_def, arith)
  then show ?thesis by metis
next
  case False
  assume "c \<noteq> CHR ''-''"
  with False show ?thesis by (simp add: upper_char_def)
qed

lemma lower_char_not_hyphen: "c \<noteq> CHR ''-'' \<Longrightarrow> lower_char c \<noteq> CHR ''-''"
proof (cases "is_upper_ascii c")
  case True
  from of_char_lower_upper [OF True] True
  have "(of_char (lower_char c) :: nat) \<noteq> of_char CHR ''-''"
    by (simp add: is_upper_ascii_def)
  then show ?thesis by metis
next
  case False
  assume "c \<noteq> CHR ''-''"
  with False show ?thesis by (simp add: lower_char_def)
qed

lemma lower_no_hyphen: "CHR ''-'' \<notin> set s \<Longrightarrow> CHR ''-'' \<notin> set (lower s)"
proof
  assume a: "CHR ''-'' \<notin> set s" and "CHR ''-'' \<in> set (lower s)"
  then obtain c where c: "c \<in> set s" and "lower_char c = CHR ''-''"
    by (auto simp: lower_def)
  with lower_char_not_hyphen [of c] have "c = CHR ''-''" by blast
  with a c show False by simp
qed

lemma capitalize_no_hyphen: "CHR ''-'' \<notin> set s \<Longrightarrow> CHR ''-'' \<notin> set (capitalize s)"
proof (cases s)
  case Nil
  then show ?thesis by simp
next
  case (Cons c cs)
  assume "CHR ''-'' \<notin> set s"
  with Cons have "c \<noteq> CHR ''-''" and "CHR ''-'' \<notin> set cs" by auto
  then have "upper_char c \<noteq> CHR ''-''" and "CHR ''-'' \<notin> set (lower cs)"
    by (auto dest: upper_char_not_hyphen lower_no_hyphen)
  with Cons show ?thesis by auto
qed

lemma replace_no_hyphen: "CHR ''-'' \<notin> set (replace_char CHR ''-'' CHR '' '' s)"
  by (auto simp: replace_char_def)

lemma movimiento_nombre_Inr:
  "movimiento_nombre m = Inr y \<Longrightarrow>
   \<exists>s. name_under ''move'' m = Inr (PStr s) \<and> y = capitalize (replace_char CHR ''-'' CHR '' '' s)"
proof -
  assume "movimiento_nombre m = Inr y"
  then obtain x v t where x: "getitem m ''move'' = Inr x" and v: "getitem x ''name'' = Inr v"
    and t: "str_replace CHR ''-'' CHR '' '' v = Inr t" and y: "y = capitalize t"
    by (auto simp: movimiento_nombre_def and_then_Inr)
  from t obtain s where "v = PStr s" and "t = replace_char CHR ''-'' CHR '' '' s"
    by (cases v) (auto simp: str_replace_def)
  with x v y show ?thesis by (simp add: name_under_def and_then_def)
qed

lemma extraer_moves:
  assumes "extraer_informacion_relevante F d = Inr I"
  shows "\<exists>moves first5 ms. getitem d ''moves'' = Inr moves \<and> slice_to 5 moves = Inr first5 \<and>
           iter_values first5 = Inr ms \<and>
           map_err movimiento_nombre ms = Inr (movimientos_principales I)"
  using assms unfolding extraer_informacion_relevante_def and_then_Inr by auto

text \<open>
  C4. When the Extractor succeeds on a record whose \<^verbatim>\<open>moves\<close> is a list of
  length \<open>n\<close>, the list of moves it returns has length \<open>min 5 n\<close>; its
  entry \<open>i\<close> is made from the name of the source's entry \<open>i\<close>, hyphens
  replaced by spaces and the result capitalized; no entry has a hyphen left.
\<close>

theorem top_moves_first_five:
  assumes "extraer_informacion_relevante F d = Inr I"
    and "getitem d ''moves'' = Inr (PList ms)"
  shows "length (movimientos_principales I) = min 5 (length ms) \<and>
         (\<forall>i < min 5 (length ms). \<exists>s.
            name_under ''move'' (ms ! i) = Inr (PStr s) \<and>
            movimientos_principales I ! i = capitalize (replace_char CHR ''-'' CHR '' '' s)) \<and>
         (\<forall>s \<in> set (movimientos_principales I). CHR ''-'' \<notin> set s)"
proof -
  from extraer_moves [OF assms(1)] assms(2)
  have m: "map_err movimiento_nombre (take 5 ms) = Inr (movimientos_principales I)"
    by (auto simp: slice_to_def iter_values_def)
  note r = map_err_Inr [OF m]
  have len: "length (movimientos_principales I) = min 5 (length ms)"
    using r by (simp add: min.commute)
  have each: "\<exists>s. name_under ''move'' (ms ! i) = Inr (PStr s) \<and>
                  movimientos_principales I ! i = capitalize (replace_char CHR ''-'' CHR '' '' s)"
    if "i < min 5 (length ms)" for i
  proof -
    from that r have "movimiento_nombre (ms ! i) = Inr (movimientos_principales I ! i)"
      by (auto simp: min.commute)
    then show ?thesis by (rule movimiento_nombre_Inr)
  qed
  have "CHR ''-'' \<notin> set s" if "s \<in> set (movimientos_principales I)" for s
  proof -
    from that obtain i where i: "i < length (movimientos_principales I)"
      and s: "s = movimientos_principales I ! i"
      by (auto simp: in_set_conv_nth)
    from i len have "i < min 5 (length ms)" by simp
    from each [OF this] s capitalize_no_hyphen [OF replace_no_hyphen] show ?thesis
      by auto
  qed
  with len each show ?thesis by blast
qed

theorem top_moves_first_five_witness:
  "\<exists>I. extraer_informacion_relevante decimal_ops bulbasaur = Inr I \<and>
       movimientos_principales I =
         [''Razor wind'', ''Swords dance'', ''Cut'', ''Bind'', ''Vine whip''] \<and>
       length (movimientos_principales I) = min 5 (7::nat) \<and>
       CHR ''-'' \<notin> set (movimientos_principales I ! 0)"
proof -
  let ?ms = "[named ''move'' ''razor-wind'', named ''move'' ''swords-dance'',
              named ''move'' ''cut'', named ''move'' ''bind'', named ''move'' ''vine-whip'',
              named ''move'' ''headbutt'', named ''move'' ''tackle''] :: (int \<times> nat) pyval list"
  let ?I = "\<lparr>nombre = ''Bulbasaur'', id_pokemon = PInt 1, peso_kg = (69, 1),
        altura_m = (7, 1), imagen_frontal_url = PStr ''https://img/1.png'',
        tipos = [''Grass'', ''Poison''], habilidades = [''Overgrow'', ''Chlorophyll''],
        movimientos_principales =
          [''Razor wind'', ''Swords dance'', ''Cut'', ''Bind'', ''Vine whip'']\<rparr>"
  have e: "extraer_informacion_relevante decimal_ops bulbasaur = Inr ?I" by code_simp
  have g: "getitem bulbasaur ''moves'' = Inr (PList ?ms)" by code_simp
  from top_moves_first_five [OF e g] e show ?thesis by simp
qed

section \<open>Writing the file (C6, C7)\<close>

lemma makedirs_isl:
  "isl (makedirs E p w) \<longleftrightarrow> p \<notin> dirs w \<and> (files w p \<noteq> None \<or> mkdir_denied E p \<noteq> None)"
  by (auto simp: makedirs_def split: option.splits)

lemma makedirs_Inr:
  "makedirs E p w = Inr w1 \<Longrightarrow>
   dirs w1 = insert p (dirs w) \<and> files w1 = files w \<and> stdout w1 = stdout w \<and>
   requests w1 = requests w"
  by (auto simp: makedirs_def split: option.splits if_splits)

lemma open_w_isl:
  "isl (open_w E p w) \<longleftrightarrow> p \<in> dirs w \<or> open_denied E p \<noteq> None"
  by (auto simp: open_w_def split: option.splits)

lemma open_w_Inr:
  "open_w E p w = Inr w2 \<Longrightarrow> dirs w2 = dirs w \<and> files w2 = (files w)(p \<mapsto> [])"
  by (auto simp: open_w_def split: option.splits if_splits)

lemma write_all_fs:
  "dirs (fst (write_all E p txt w)) = dirs w"
  "files (fst (write_all E p txt w)) =
     (files w)(p \<mapsto> (case write_fault E p of
                        None \<Rightarrow> txt
                      | Some (n, msg) \<Rightarrow> if n < length txt then take n txt else txt))"
  by (auto simp: write_all_def split: option.splits)

lemma guardar_fs_Inl:
  "makedirs E POKEDEX_FOLDER w = Inl e \<Longrightarrow>
   dirs (guardar_informacion_json E I w) = dirs w \<and>
   files (guardar_informacion_json E I w) = files w"
  by (simp add: guardar_informacion_json_def)

lemma guardar_fs_open_Inl:
  "makedirs E POKEDEX_FOLDER w = Inr w1 \<Longrightarrow> open_w E (ruta_completa I) w1 = Inl e \<Longrightarrow>
   dirs (guardar_informacion_json E I w) = dirs w1 \<and>
   files (guardar_informacion_json E I w) = files w1"
  by (simp add: guardar_informacion_json_def)

lemma guardar_fs_written:
  assumes "makedirs E POKEDEX_FOLDER w = Inr w1" and "open_w E (ruta_completa I) w1 = Inr w2"
  shows "dirs (guardar_informacion_json E I w) =
           dirs (fst (write_all E (ruta_completa I) (json_dump (float E) I) w2)) \<and>
         files (guardar_informacion_json E I w) =
           files (fst (write_all E (ruta_completa I) (json_dump (float E) I) w2))"
proof (cases "write_all E (ruta_completa I) (json_dump (float E) I) w2")
  case (Pair w3 r)
  with assms show ?thesis
    by (cases r) (simp_all add: guardar_informacion_json_def)
qed

lemma guardar_dirs:
  "dirs (guardar_informacion_json E I w) =
     (if isl (makedirs E POKEDEX_FOLDER w) then dirs w else insert POKEDEX_FOLDER (dirs w))"
proof (cases "makedirs E POKEDEX_FOLDER w")
  case (Inl e)
  with guardar_fs_Inl [OF Inl, of I] show ?thesis by simp
next
  case w1: (Inr w1)
  note m = makedirs_Inr [OF w1]
  show ?thesis
  proof (cases "open_w E (ruta_completa I) w1")
    case (Inl e)
    with guardar_fs_open_Inl [OF w1 Inl] w1 m show ?thesis by simp
  next
    case (Inr w2)
    with guardar_fs_written [OF w1 Inr] open_w_Inr [OF Inr] w1 m show ?thesis
      by (simp add: write_all_fs(1))
  qed
qed

lemma guardar_files:
  "files (guardar_informacion_json E I w) =
     (if isl (makedirs E POKEDEX_FOLDER w) then files w
      else if ruta_completa I \<in> insert POKEDEX_FOLDER (dirs w) \<or>
              open_denied E (ruta_completa I) \<noteq> None then files w
      else (files w)(ruta_completa I \<mapsto>
             (case write_fault E (ruta_completa I) of
                None \<Rightarrow> json_dump (float E) I
              | Some (n, msg) \<Rightarrow>
                  if n < length (json_dump (float E) I) then take n (json_dump (float E) I)
                  else json_dump (float E) I)))"
proof (cases "makedirs E POKEDEX_FOLDER w")
  case (Inl e)
  with guardar_fs_Inl [OF Inl, of I] show ?thesis by simp
next
  case w1: (Inr w1)
  note m = makedirs_Inr [OF w1]
  have i: "\<not> isl (makedirs E POKEDEX_FOLDER w)" using w1 by simp
  have o: "isl (open_w E (ruta_completa I) w1) \<longleftrightarrow>
           ruta_completa I \<in> insert POKEDEX_FOLDER (dirs w) \<or>
           open_denied E (ruta_completa I) \<noteq> None"
    using m by (simp only: open_w_isl)
  show ?thesis
  proof (cases "open_w E (ruta_completa I) w1")
    case (Inl e)
    then have "isl (open_w E (ruta_completa I) w1)" by simp
    then have "ruta_completa I \<in> insert POKEDEX_FOLDER (dirs w) \<or>
               open_denied E (ruta_completa I) \<noteq> None"
      using o by blast
    with guardar_fs_open_Inl [OF w1 Inl] m i show ?thesis by simp
  next
    case (Inr w2)
    then have "\<not> isl (open_w E (ruta_completa I) w1)" by simp
    then have "\<not> (ruta_completa I \<in> insert POKEDEX_FOLDER (dirs w) \<or>
                  open_denied E (ruta_completa I) \<noteq> None)"
      using o by blast
    with guardar_fs_written [OF w1 Inr] open_w_Inr [OF Inr] m i show ?thesis
      by (simp add: write_all_fs(2))
  qed
qed

lemma guardar_twice:
  "files (guardar_informacion_json E I (guardar_informacion_json E I w)) =
     files (guardar_informacion_json E I w) \<and>
   dirs (guardar_informacion_json E I (guardar_informacion_json E I w)) =
     dirs (guardar_informacion_json E I w)"
proof (cases "isl (makedirs E POKEDEX_FOLDER w)")
  case True
  then have "files (guardar_informacion_json E I w) = files w"
    and "dirs (guardar_informacion_json E I w) = dirs w"
    by (simp_all add: guardar_files guardar_dirs)
  then have "isl (makedirs E POKEDEX_FOLDER (guardar_informacion_json E I w))"
    using True by (simp add: makedirs_isl)
  then show ?thesis by (simp add: guardar_files guardar_dirs)
next
  case False
  then have d: "dirs (guardar_informacion_json E I w) = insert POKEDEX_FOLDER (dirs w)"
    by (simp add: guardar_dirs)
  then have n: "\<not> isl (makedirs E POKEDEX_FOLDER (guardar_informacion_json E I w))"
    by (simp add: makedirs_isl)
  show ?thesis
    unfolding guardar_files [of E I "guardar_informacion_json E I w"]
      guardar_dirs [of E I "guardar_informacion_json E I w"]
    using n d False by (simp add: guardar_files)
qed

lemma lower_char_eq_other:
  assumes "\<not> is_upper_ascii d" and "\<not> is_lower_ascii d"
  shows "lower_char c = d \<longleftrightarrow> c = d"
proof (cases "is_upper_ascii c")
  case True
  from of_char_lower_upper [OF True] True have "is_lower_ascii (lower_char c)"
    by (simp add: is_lower_ascii_def is_upper_ascii_def)
  with assms True show ?thesis by auto
next
  case False
  then show ?thesis by (simp add: lower_char_def)
qed

lemma lower_char_slash [simp]: "lower_char c = CHR ''/'' \<longleftrightarrow> c = CHR ''/''"
  by (rule lower_char_eq_other) (simp_all add: is_upper_ascii_def is_lower_ascii_def)

lemma lower_char_space [simp]: "lower_char c = CHR '' '' \<longleftrightarrow> c = CHR '' ''"
  by (rule lower_char_eq_other) (simp_all add: is_upper_ascii_def is_lower_ascii_def)

lemma ruta_completa_cases:
  "ruta_completa I =
     (if nombre I \<noteq> [] \<and> hd (nombre I) = CHR ''/'' then nombre_archivo I
      else ''pokedex/'' @ nombre_archivo I)"
proof (cases "nombre I")
  case Nil
  then show ?thesis
    by (simp add: ruta_completa_def path_join_def nombre_archivo_def POKEDEX_FOLDER_def
        lower_def replace_char_def)
next
  case (Cons c cs)
  then show ?thesis
    by (simp add: ruta_completa_def path_join_def nombre_archivo_def POKEDEX_FOLDER_def
        lower_def replace_char_def)
qed

lemma last_ruta_completa: "last (ruta_completa I) = CHR ''n''"
  by (simp add: ruta_completa_cases nombre_archivo_def)

lemma ruta_not_folder: "ruta_completa I \<noteq> POKEDEX_FOLDER"
proof
  assume "ruta_completa I = POKEDEX_FOLDER"
  then have "last (ruta_completa I) = last POKEDEX_FOLDER" by simp
  then show False by (simp add: last_ruta_completa POKEDEX_FOLDER_def)
qed

lemma guardar_ok_fs:
  assumes "escritura_posible E I w"
  shows "files (guardar_informacion_json E I w) =
           (files w)(ruta_completa I \<mapsto> json_dump (float E) I)"
    and "dirs (guardar_informacion_json E I w) = insert POKEDEX_FOLDER (dirs w)"
proof -
  from assms have m: "\<not> isl (makedirs E POKEDEX_FOLDER w)"
    by (auto simp: escritura_posible_def makedirs_isl)
  from assms have o: "\<not> (ruta_completa I \<in> insert POKEDEX_FOLDER (dirs w) \<or>
                         open_denied E (ruta_completa I) \<noteq> None)"
    by (simp add: escritura_posible_def ruta_not_folder)
  from assms have f: "write_fault E (ruta_completa I) = None"
    by (simp add: escritura_posible_def)
  show "files (guardar_informacion_json E I w) =
           (files w)(ruta_completa I \<mapsto> json_dump (float E) I)"
    unfolding guardar_files using m o f by simp
  show "dirs (guardar_informacion_json E I w) = insert POKEDEX_FOLDER (dirs w)"
    unfolding guardar_dirs using m by simp
qed









lemma escritura_world0: "escritura_posible (env_of g) I world0"
  by (simp add: escritura_posible_def env_of_def world0_def)

lemma world0_fields [simp]:
  "stdout world0 = []" "requests world0 = []" "dirs world0 = {}" "files world0 = Map.empty"
  by (simp_all add: world0_def)

lemma ruta_bulbasaur: "ruta_completa info_bulbasaur = ''pokedex/bulbasaur.json''"
  by code_simp

lemma json_bulbasaur: "json_dump decimal_ops info_bulbasaur = bulbasaur_json"
  by code_simp



text \<open>
  C7. Whatever the environment, the directories and the contents of every
  file are the same after a second call as after the first. When nothing
  fails, the file holds the JSON text of the record after each call, and it
  holds the same had the file had any other contents before: the write
  replaces them.
\<close>

theorem persist_twice_same_file:
  "files (guardar_informacion_json E I (guardar_informacion_json E I w)) =
     files (guardar_informacion_json E I w) \<and>
   dirs (guardar_informacion_json E I (guardar_informacion_json E I w)) =
     dirs (guardar_informacion_json E I w) \<and>
   (escritura_posible E I w \<longrightarrow>
      files (guardar_informacion_json E I w) (ruta_completa I) =
        Some (json_dump (float E) I) \<and>
      files (guardar_informacion_json E I (guardar_informacion_json E I w)) (ruta_completa I) =
        Some (json_dump (float E) I) \<and>
      files (guardar_informacion_json E I (w\<lparr>files := (files w)(ruta_completa I \<mapsto> old)\<rparr>)) =
        files (guardar_informacion_json E I w))"
proof -
  have ok: "files (guardar_informacion_json E I w) (ruta_completa I) =
              Some (json_dump (float E) I) \<and>
            files (guardar_informacion_json E I (guardar_informacion_json E I w))
              (ruta_completa I) = Some (json_dump (float E) I) \<and>
            files (guardar_informacion_json E I (w\<lparr>files := (files w)(ruta_completa I \<mapsto> old)\<rparr>)) =
              files (guardar_informacion_json E I w)"
    if p: "escritura_posible E I w"
  proof -
    have 1: "files (guardar_informacion_json E I w) (ruta_completa I) =
             Some (json_dump (float E) I)"
      by (simp add: guardar_ok_fs(1) [OF p])
    have "escritura_posible E I (w\<lparr>files := (files w)(ruta_completa I \<mapsto> old)\<rparr>)"
      using p ruta_not_folder [of I] by (auto simp: escritura_posible_def)
    from guardar_ok_fs(1) [OF this] guardar_ok_fs(1) [OF p]
    have 3: "files (guardar_informacion_json E I (w\<lparr>files := (files w)(ruta_completa I \<mapsto> old)\<rparr>)) =
             files (guardar_informacion_json E I w)"
      by simp
    from 1 3 guardar_twice [of E I w] show ?thesis by simp
  qed
  with guardar_twice [of E I w] show ?thesis by blast
qed

theorem persist_twice_same_file_witness:
  "escritura_posible (env_of servicio) info_bulbasaur world0 \<and>
   files (guardar_informacion_json (env_of servicio) info_bulbasaur
           (guardar_informacion_json (env_of servicio) info_bulbasaur world0))
     ''pokedex/bulbasaur.json'' = Some bulbasaur_json \<and>
   files (guardar_informacion_json (env_of servicio) info_bulbasaur
           (world0\<lparr>files := [''pokedex/bulbasaur.json'' \<mapsto> ''{}'']\<rparr>)) =
     [''pokedex/bulbasaur.json'' \<mapsto> bulbasaur_json]"
proof -
  have f: "float (env_of servicio) = decimal_ops" by (simp add: env_of_def)
  from persist_twice_same_file [of "env_of servicio" info_bulbasaur world0 "''{}''"]
    guardar_ok_fs(1) [OF escritura_world0 [of servicio info_bulbasaur]]
  show ?thesis
    by (simp add: escritura_world0 ruta_bulbasaur json_bulbasaur f)
qed

section \<open>Weight and height\<close>

text \<open>
  The two measures of the record are the runtime's quotients by ten of the
  values under \<^verbatim>\<open>weight\<close> and \<^verbatim>\<open>height\<close>. What float such a quotient
  is depends on the floating-point arithmetic, which is a parameter here.
\<close>

lemma extraer_peso_altura:
  assumes "extraer_informacion_relevante F d = Inr I"
    and "getitem d ''weight'' = Inr (PInt p)" and "getitem d ''height'' = Inr (PInt h)"
  shows "int_truediv F p 10 = Some (peso_kg I) \<and> int_truediv F h 10 = Some (altura_m I)"
proof -
  from assms(1) obtain weight height v_peso v_altura
    where "getitem d ''weight'' = Inr weight" "truediv_10 F weight = Inr v_peso"
      "getitem d ''height'' = Inr height" "truediv_10 F height = Inr v_altura"
      "peso_kg I = v_peso" "altura_m I = v_altura"
    unfolding extraer_informacion_relevante_def and_then_Inr by auto
  with assms(2,3) show ?thesis
    by (auto simp: truediv_10_def split: option.splits)
qed

end
